theory Spec2Isabelle
  imports Complex_Main
begin

section \<open>Python values shared by the modules\<close>

text \<open>
  Strings are lists of characters, and a character is a code point from 0 to 255 (ASCII
  and Latin-1); code points above 255 are not in the type. On these \<open>str.lower\<close> maps
  the letters \<open>A\<close> to \<open>Z\<close> (codes 65 to 90) and the accented capitals (codes 192 to
  222, but for the multiplication sign 215) to the letter 32 places higher, and leaves
  every other character unchanged.
\<close>

definition lower_char :: "char \<Rightarrow> char" where
  "lower_char c =
     (let n = (of_char c :: nat) in
      if (65 \<le> n \<and> n \<le> 90) \<or> (192 \<le> n \<and> n \<le> 222 \<and> n \<noteq> 215) then char_of (n + 32)
      else c)"

definition lower :: "string \<Rightarrow> string" where
  "lower s = map lower_char s"

text \<open>\<open>text.startswith(word)\<close>.\<close>

fun startswith :: "string \<Rightarrow> string \<Rightarrow> bool" where
  "startswith t [] = True"
| "startswith [] (c # w) = False"
| "startswith (d # t) (c # w) = (d = c \<and> startswith t w)"

text \<open>
  \<open>word in text\<close> on two strings: the word starts at some position of the text.
\<close>

fun contains :: "string \<Rightarrow> string \<Rightarrow> bool" where
  "contains word [] = (word = [])"
| "contains word (c # t) = (startswith (c # t) word \<or> contains word t)"

text \<open>
  Numbers. The quotient of two small integers and its rounding are computed in exact
  rational arithmetic. \<open>round(x, ndigits)\<close> rounds to the nearest multiple of
  \<open>10 ^ -ndigits\<close> and resolves a tie towards the even multiple.
\<close>

definition round_half_even :: "rat \<Rightarrow> int" where
  "round_half_even x =
     (let f = \<lfloor>x\<rfloor>; d = x - of_int f in
      if d < 1 / 2 then f
      else if 1 / 2 < d then f + 1
      else if even f then f else f + 1)"

definition py_round :: "rat \<Rightarrow> nat \<Rightarrow> rat" where
  "py_round x ndigits = of_int (round_half_even (x * 10 ^ ndigits)) / 10 ^ ndigits"

section \<open>sandboxes/news/google\_news\_deprecated.py: the sentiment scorer\<close>

text \<open>
  The object built by \<open>GoogleNewsSandbox.__init__\<close>: the base URL, the header
  dictionary, and the session. A session is an object of the \<open>requests\<close> library, of
  a type \<open>'s\<close> left open; \<open>new_session hs\<close> is the session that
  \<open>requests.Session()\<close> creates once its headers are updated with \<open>hs\<close>.
\<close>

record 's GoogleNewsSandbox =
  base_url :: string
  headers :: "(string \<times> string) list"
  session :: 's

definition GoogleNewsSandbox_init :: "((string \<times> string) list \<Rightarrow> 's) \<Rightarrow> 's GoogleNewsSandbox" where
  "GoogleNewsSandbox_init new_session =
     (let hs = [(''User-Agent'',
                 ''Mozilla/5.0 (Windows NT 10.0; Win64; x64) AppleWebKit/537.36 (KHTML, like Gecko) Chrome/91.0.4472.124 Safari/537.36'')]
      in \<lparr>base_url = ''https://news.google.com'', headers = hs, session = new_session hs\<rparr>)"

text \<open>The two local word lists of \<open>analyze_sentiment\<close>.\<close>

definition positive_words_list :: "string list" where
  "positive_words_list =
     [''up'', ''rise'', ''gain'', ''positive'', ''growth'', ''profit'', ''earnings'', ''beat'',
      ''strong'', ''bullish'', ''surge'', ''rally'', ''higher'', ''increase'', ''success'']"

definition negative_words_list :: "string list" where
  "negative_words_list =
     [''down'', ''fall'', ''drop'', ''negative'', ''loss'', ''decline'', ''miss'', ''weak'',
      ''bearish'', ''crash'', ''lower'', ''decrease'', ''failure'', ''risk'', ''concern'']"

text \<open>
  The result dictionary, with its four keys \<open>"sentiment"\<close>, \<open>"score"\<close>,
  \<open>"positive_words"\<close> and \<open>"negative_words"\<close>.
\<close>

record sentiment_dict =
  sentiment :: string
  score :: rat
  positive_words :: nat
  negative_words :: nat

text \<open>\<open>sum(1 for word in words if word in text_lower)\<close>.\<close>

definition count_hits :: "string list \<Rightarrow> string \<Rightarrow> nat" where
  "count_hits words text_lower = sum_list [1. word \<leftarrow> words, contains word text_lower]"

definition analyze_sentiment :: "'s GoogleNewsSandbox \<Rightarrow> string \<Rightarrow> sentiment_dict" where
  "analyze_sentiment self text =
     (let text_lower = lower text;
          positive_count = count_hits positive_words_list text_lower;
          negative_count = count_hits negative_words_list text_lower;
          (label, score0) =
            (if positive_count > negative_count then
               (''positive'', of_nat positive_count / of_nat (positive_count + negative_count + 1))
             else if negative_count > positive_count then
               (''negative'', of_nat negative_count / of_nat (positive_count + negative_count + 1))
             else (''neutral'', 1 / 2))
      in \<lparr>sentiment = label, score = py_round score0 3,
          positive_words = positive_count, negative_words = negative_count\<rparr>)"

text \<open>
  The number of occurrences of a word in a text, in the reading of the specification: the
  number of positions of the text at which the word starts.
\<close>

fun spec_occurrences :: "string \<Rightarrow> string \<Rightarrow> nat" where
  "spec_occurrences word [] = (if word = [] then 1 else 0)"
| "spec_occurrences word (c # t) =
     (if startswith (c # t) word then 1 else 0) + spec_occurrences word t"

section \<open>sandboxes/news/google\_news\_deprecated.py: fetching and aggregating news\<close>

text \<open>
  Exceptions are values: the class and the text \<open>str(e)\<close>. The classes are the subclasses
  of \<open>Exception\<close>, which is what the handlers \<open>except Exception\<close> of the sandboxes
  catch; \<open>LibraryError name\<close> is any other such class raised by a library.
\<close>

datatype exc_class =
  Exception | ValueError | TypeError | AttributeError | KeyError | IndexError | LibraryError string

datatype exn = Exn exc_class string

fun str_exn :: "exn \<Rightarrow> string" where
  "str_exn (Exn c msg) = msg"

fun class_exn :: "exn \<Rightarrow> exc_class" where
  "class_exn (Exn c msg) = c"

text \<open>
  \<open>str.strip()\<close> removes white space at both ends. Below 256 the white space
  characters are the codes 9 to 13, 28 to 32, 133 (next line) and 160 (no-break space).
\<close>

definition is_space :: "char \<Rightarrow> bool" where
  "is_space c =
     (let n = (of_char c :: nat) in
      (9 \<le> n \<and> n \<le> 13) \<or> (28 \<le> n \<and> n \<le> 32) \<or> n = 133 \<or> n = 160)"

definition strip :: "string \<Rightarrow> string" where
  "strip s = rev (dropWhile is_space (rev (dropWhile is_space s)))"

text \<open>
  What BeautifulSoup finds in one \<open>article\<close> element: the text of its first
  \<open>h3\<close>, \<open>h4\<close> and \<open>span\<close>, the \<open>href\<close> attribute of its first \<open>a\<close>, and the text
  and \<open>datetime\<close> attribute of its first \<open>time\<close>; \<open>None\<close> where \<open>find\<close> or
  \<open>get\<close> returns \<open>None\<close>.
\<close>

record article_element =
  h3 :: "string option"
  h4 :: "string option"
  a_href :: "string option option"
  time_tag :: "(string \<times> string option) option"
  span :: "string option"

text \<open>
  The response of \<open>session.get\<close>: the outcome of \<open>raise_for_status()\<close> (\<open>None\<close> when it
  returns) and the elements of \<open>soup.find_all("article")\<close> on its content. An element
  on which the extracting code raises \<open>e\<close> is \<open>Inl e\<close>.
\<close>

record response =
  raise_for_status :: "exn option"
  page_articles :: "(exn + article_element) list"

text \<open>
  The outside world: \<open>quote_plus\<close> of \<open>urllib\<close> and the HTTP request
  \<open>session.get(url, timeout=10)\<close>, which reads and changes a world state \<open>'w\<close> and
  may raise.
\<close>

record ('w, 's) env =
  quote_plus :: "string \<Rightarrow> string"
  session_get :: "'w \<Rightarrow> 's \<Rightarrow> string \<Rightarrow> (exn + response) \<times> 'w"

text \<open>
  The lines printed by the sandboxes, one constructor for each \<open>print\<close> of the
  functions below, with the values its f-string shows: those of \<open>search_news\<close>, of
  \<open>save_news_data\<close>, of \<open>get_stock_info\<close> and \<open>get_historical_data\<close>, and of the
  three functions that call the inference endpoint.
\<close>

datatype output_line =
    Searching_for string
  | Error_parsing_article exn
  | Found_articles nat string
  | Error_searching_news string exn
  | Saved_news_data string
  | Error_saving_data exn
  | Retrieved_info string
  | Error_getting_info string exn
  | No_data_found string
  | Retrieved_days nat string
  | Error_getting_historical_data string exn
  | Error_making_summarization_request exn
  | Error_token_not_found
  | Error_making_inference_request string

record 'w io =
  world :: 'w
  stdout :: "output_line list"

text \<open>The dictionary appended for each article; \<open>None\<close> is Python's \<open>None\<close>.\<close>

record article =
  title :: string
  link :: "string option"
  source :: string
  time :: "string option"
  query :: string

definition extract_article :: "'s GoogleNewsSandbox \<Rightarrow> string \<Rightarrow> article_element \<Rightarrow> article" where
  "extract_article self q el =
     (let title_element = (case h3 el of Some t \<Rightarrow> Some t | None \<Rightarrow> h4 el);
          title = (case title_element of Some t \<Rightarrow> strip t | None \<Rightarrow> ''No title'');
          link0 = (case a_href el of Some href \<Rightarrow> href | None \<Rightarrow> Some []);
          link = (case link0 of
                    Some l \<Rightarrow>
                      if l \<noteq> [] \<and> startswith l ''./'' then Some (base_url self @ drop 1 l)
                      else Some l
                  | None \<Rightarrow> None);
          source = (case time_tag el of
                      Some (t, dt) \<Rightarrow> strip t
                    | None \<Rightarrow> (case span el of Some t \<Rightarrow> strip t | None \<Rightarrow> ''Unknown source''));
          time_str = (case time_tag el of Some (t, dt) \<Rightarrow> dt | None \<Rightarrow> Some [])
      in \<lparr>title = title, link = link, source = source, time = time_str, query = q\<rparr>)"

text \<open>The loop over \<open>article_elements[:10]\<close>, with its handler that prints and continues.\<close>

fun parse_articles ::
  "'s GoogleNewsSandbox \<Rightarrow> string \<Rightarrow> (exn + article_element) list \<Rightarrow> article list \<Rightarrow>
   output_line list \<Rightarrow> article list \<times> output_line list" where
  "parse_articles self q [] articles out = (articles, out)"
| "parse_articles self q (Inl e # els) articles out =
     parse_articles self q els articles (out @ [Error_parsing_article e])"
| "parse_articles self q (Inr el # els) articles out =
     parse_articles self q els (articles @ [extract_article self q el]) out"

definition search_news ::
  "('w, 's) env \<Rightarrow> 's GoogleNewsSandbox \<Rightarrow> string \<Rightarrow> int \<Rightarrow> 'w io \<Rightarrow> article list \<times> 'w io" where
  "search_news env self q days io =
     (let formatted_query = quote_plus env q;
          search_url = base_url self @ ''/search?q='' @ formatted_query @ ''&hl=en-US&gl=US&ceid=US:en'';
          out1 = stdout io @ [Searching_for q];
          (r, w') = session_get env (world io) (session self) search_url
      in case r of
           Inl e \<Rightarrow> ([], \<lparr>world = w', stdout = out1 @ [Error_searching_news q e]\<rparr>)
         | Inr resp \<Rightarrow>
             (case raise_for_status resp of
                Some e \<Rightarrow> ([], \<lparr>world = w', stdout = out1 @ [Error_searching_news q e]\<rparr>)
              | None \<Rightarrow>
                  (let (articles, out2) = parse_articles self q (take 10 (page_articles resp)) [] out1
                   in (articles,
                       \<lparr>world = w', stdout = out2 @ [Found_articles (length articles) q]\<rparr>))))"

text \<open>
  \<open>get_stock_news\<close>: the queries, the loop that extends \<open>all_articles\<close> (the
  \<open>sleep\<close> between two requests has no effect on the result), the loop that removes
  duplicates with the set \<open>seen_titles\<close>, and the final slice.
\<close>

definition stock_queries :: "string \<Rightarrow> string \<Rightarrow> string list" where
  "stock_queries symbol company_name =
     (if company_name \<noteq> [] then [symbol, company_name, symbol @ '' '' @ company_name]
      else [symbol])"

fun search_all ::
  "('w, 's) env \<Rightarrow> 's GoogleNewsSandbox \<Rightarrow> string list \<Rightarrow> int \<Rightarrow> article list \<Rightarrow> 'w io \<Rightarrow>
   article list \<times> 'w io" where
  "search_all env self [] days all_articles io = (all_articles, io)"
| "search_all env self (q # qs) days all_articles io =
     (let (articles, io') = search_news env self q days io
      in search_all env self qs days (all_articles @ articles) io')"

fun remove_duplicates :: "article list \<Rightarrow> string set \<Rightarrow> article list \<Rightarrow> article list" where
  "remove_duplicates [] seen_titles unique_articles = unique_articles"
| "remove_duplicates (a # as) seen_titles unique_articles =
     (if title a \<notin> seen_titles
      then remove_duplicates as (insert (title a) seen_titles) (unique_articles @ [a])
      else remove_duplicates as seen_titles unique_articles)"

definition get_stock_news ::
  "('w, 's) env \<Rightarrow> 's GoogleNewsSandbox \<Rightarrow> string \<Rightarrow> string \<Rightarrow> int \<Rightarrow> 'w io \<Rightarrow> article list \<times> 'w io" where
  "get_stock_news env self symbol company_name days io =
     (let queries = stock_queries symbol company_name;
          (all_articles, io') = search_all env self queries days [] io;
          unique_articles = remove_duplicates all_articles {} []
      in (take 15 unique_articles, io'))"

section \<open>sandboxes/news/news\_client.py\<close>

text \<open>
  The Python values that pass through the client: keyword arguments, and the decoded JSON
  that the \<open>newsapi\<close> library returns. A \<open>dict\<close> is an association list in which a
  key occurs once.
\<close>

datatype pyval =
    PyNone
  | PyBool bool
  | PyInt int
  | PyFloat rat
  | PyStr string
  | PyDate nat nat nat
  | PyDateTime nat nat nat nat nat nat
  | PyList "pyval list"
  | PyDict "(string \<times> pyval) list"

definition apostrophe :: string where
  "apostrophe = [CHR 0x27]"

fun type_name :: "pyval \<Rightarrow> string" where
  "type_name PyNone = ''NoneType''"
| "type_name (PyBool b) = ''bool''"
| "type_name (PyInt i) = ''int''"
| "type_name (PyFloat x) = ''float''"
| "type_name (PyStr s) = ''str''"
| "type_name (PyDate y m d) = ''datetime.date''"
| "type_name (PyDateTime y m d hh mm ss) = ''datetime.datetime''"
| "type_name (PyList xs) = ''list''"
| "type_name (PyDict kvs) = ''dict''"

text \<open>\<open>x.get(key, default)\<close>: only a \<open>dict\<close> has the method.\<close>

fun py_get :: "pyval \<Rightarrow> string \<Rightarrow> pyval \<Rightarrow> exn + pyval" where
  "py_get (PyDict kvs) key default' =
     Inr (case map_of kvs key of Some v \<Rightarrow> v | None \<Rightarrow> default')"
| "py_get x key default' =
     Inl (Exn AttributeError
            (apostrophe @ type_name x @ apostrophe @ '' object has no attribute 'get'' @ apostrophe))"

text \<open>
  \<open>for item in x\<close>: the items of a list, the keys of a \<open>dict\<close>, the characters of a
  string; any other value is not iterable.
\<close>

fun py_iter :: "pyval \<Rightarrow> exn + pyval list" where
  "py_iter (PyList xs) = Inr xs"
| "py_iter (PyDict kvs) = Inr (map (\<lambda>kv. PyStr (fst kv)) kvs)"
| "py_iter (PyStr s) = Inr (map (\<lambda>c. PyStr [c]) s)"
| "py_iter x =
     Inl (Exn TypeError (apostrophe @ type_name x @ apostrophe @ '' object is not iterable''))"

text \<open>
  The dataclasses. Their fields hold whatever the response contains: a dataclass does not
  check the annotated types. The field \<open>title\<close> of \<open>NewsArticle\<close> is \<open>article_title\<close>
  here, \<open>title\<close> being the key of the dictionaries of the Google News sandbox.
\<close>

record NewsArticle =
  source_id :: pyval
  source_name :: pyval
  author :: pyval
  article_title :: pyval
  description :: pyval
  url :: pyval
  url_to_image :: pyval
  published_at :: pyval
  content :: pyval

record NewsResponse =
  status :: pyval
  total_results :: pyval
  articles :: "NewsArticle list"

text \<open>The object built by \<open>NewsAPIClient.__init__\<close> holds the library client and its key.\<close>

record NewsAPIClient =
  client_api_key :: string

text \<open>
  The \<open>newsapi\<close> library and \<open>strftime\<close>: the three requests take the key of the client
  and the keyword arguments of the call, read and change the world, and may raise.
\<close>

record 'w newsapi =
  client_get_top_headlines :: "'w \<Rightarrow> string \<Rightarrow> (string \<times> pyval) list \<Rightarrow> (exn + pyval) \<times> 'w"
  client_get_everything :: "'w \<Rightarrow> string \<Rightarrow> (string \<times> pyval) list \<Rightarrow> (exn + pyval) \<times> 'w"
  client_get_sources :: "'w \<Rightarrow> string \<Rightarrow> (string \<times> pyval) list \<Rightarrow> (exn + pyval) \<times> 'w"
  strftime :: "pyval \<Rightarrow> string \<Rightarrow> exn + string"

text \<open>
  \<open>__init__\<close>, with the process environment (after \<open>load_dotenv\<close>) as a map.
\<close>

definition NewsAPIClient_init :: "(string \<rightharpoonup> string) \<Rightarrow> string option \<Rightarrow> exn + NewsAPIClient" where
  "NewsAPIClient_init environ api_key =
     (case api_key of
        Some k \<Rightarrow> Inr \<lparr>client_api_key = k\<rparr>
      | None \<Rightarrow>
          (case environ ''API_NEWS_KEY'' of
             None \<Rightarrow>
               Inl (Exn ValueError
                 ''API key not found. Set API_NEWS_KEY environment variable or pass api_key parameter.'')
           | Some k \<Rightarrow>
               if k = [] then
                 Inl (Exn ValueError
                   ''API key not found. Set API_NEWS_KEY environment variable or pass api_key parameter.'')
               else Inr \<lparr>client_api_key = k\<rparr>))"

text \<open>
  Inside a \<open>try\<close> block the first statement that raises ends the block: the rest runs
  on the value of a statement that returns.
\<close>

fun bind_exn :: "exn + 'a \<Rightarrow> ('a \<Rightarrow> exn + 'b) \<Rightarrow> exn + 'b" where
  "bind_exn (Inl e) f = Inl e"
| "bind_exn (Inr x) f = f x"

text \<open>\<open>_parse_response\<close>: the body of its loop, the loop, and the method.\<close>

definition parse_article_data :: "pyval \<Rightarrow> exn + NewsArticle" where
  "parse_article_data article_data =
     bind_exn (py_get article_data ''source'' (PyDict [])) (\<lambda>src.
     bind_exn (py_get src ''id'' (PyStr [])) (\<lambda>v_id.
     bind_exn (py_get src ''name'' (PyStr [])) (\<lambda>v_name.
     bind_exn (py_get article_data ''author'' PyNone) (\<lambda>v_author.
     bind_exn (py_get article_data ''title'' (PyStr [])) (\<lambda>v_title.
     bind_exn (py_get article_data ''description'' PyNone) (\<lambda>v_description.
     bind_exn (py_get article_data ''url'' (PyStr [])) (\<lambda>v_url.
     bind_exn (py_get article_data ''urlToImage'' PyNone) (\<lambda>v_image.
     bind_exn (py_get article_data ''publishedAt'' (PyStr [])) (\<lambda>v_published.
     bind_exn (py_get article_data ''content'' PyNone) (\<lambda>v_content.
       Inr \<lparr>source_id = v_id, source_name = v_name, author = v_author, article_title = v_title,
            description = v_description, url = v_url, url_to_image = v_image,
            published_at = v_published, content = v_content\<rparr>))))))))))"

fun parse_articles_data :: "pyval list \<Rightarrow> NewsArticle list \<Rightarrow> exn + NewsArticle list" where
  "parse_articles_data [] articles' = Inr articles'"
| "parse_articles_data (article_data # rest) articles' =
     (case parse_article_data article_data of
        Inl e \<Rightarrow> Inl e
      | Inr article \<Rightarrow> parse_articles_data rest (articles' @ [article]))"

definition parse_response :: "pyval \<Rightarrow> exn + NewsResponse" where
  "parse_response resp =
     bind_exn (py_get resp ''articles'' (PyList [])) (\<lambda>v_articles.
     bind_exn (py_iter v_articles) (\<lambda>items.
     bind_exn (parse_articles_data items []) (\<lambda>articles'.
     bind_exn (py_get resp ''status'' (PyStr [])) (\<lambda>v_status.
     bind_exn (py_get resp ''totalResults'' (PyInt 0)) (\<lambda>v_total.
       Inr \<lparr>status = v_status, total_results = v_total, articles = articles'\<rparr>)))))"

text \<open>
  \<open>get_top_headlines\<close>: everything inside \<open>try\<close> that raises is raised again as a plain
  \<open>Exception\<close> with a prefixed message.
\<close>

definition get_top_headlines ::
  "'w newsapi \<Rightarrow> NewsAPIClient \<Rightarrow> pyval \<Rightarrow> pyval \<Rightarrow> pyval \<Rightarrow> pyval \<Rightarrow> pyval \<Rightarrow> pyval \<Rightarrow> pyval \<Rightarrow>
   'w \<Rightarrow> (exn + NewsResponse) \<times> 'w" where
  "get_top_headlines lib self q sources category language country page_size page w =
     (let (r, w') = client_get_top_headlines lib w (client_api_key self)
                      [(''q'', q), (''sources'', sources), (''category'', category),
                       (''language'', language), (''country'', country),
                       (''page_size'', page_size), (''page'', page)]
      in case r of
           Inl e \<Rightarrow> (Inl (Exn Exception (''Error fetching top headlines: '' @ str_exn e)), w')
         | Inr resp \<Rightarrow>
             (case parse_response resp of
                Inl e \<Rightarrow> (Inl (Exn Exception (''Error fetching top headlines: '' @ str_exn e)), w')
              | Inr parsed \<Rightarrow> (Inr parsed, w')))"

text \<open>\<open>isinstance(x, (date, datetime))\<close> and the conversion of \<open>get_everything\<close>.\<close>

fun is_date :: "pyval \<Rightarrow> bool" where
  "is_date (PyDate y m d) = True"
| "is_date (PyDateTime y m d hh mm ss) = True"
| "is_date x = False"

definition date_to_string :: "'w newsapi \<Rightarrow> pyval \<Rightarrow> exn + pyval" where
  "date_to_string lib x =
     (if is_date x then
        (case strftime lib x ''%Y-%m-%d'' of Inl e \<Rightarrow> Inl e | Inr s \<Rightarrow> Inr (PyStr s))
      else Inr x)"

definition get_everything ::
  "'w newsapi \<Rightarrow> NewsAPIClient \<Rightarrow> pyval \<Rightarrow> pyval \<Rightarrow> pyval \<Rightarrow> pyval \<Rightarrow> pyval \<Rightarrow> pyval \<Rightarrow> pyval \<Rightarrow>
   pyval \<Rightarrow> pyval \<Rightarrow> 'w \<Rightarrow> (exn + NewsResponse) \<times> 'w" where
  "get_everything lib self q sources domains from_param to language sort_by page_size page w =
     (case date_to_string lib from_param of
        Inl e \<Rightarrow> (Inl (Exn Exception (''Error fetching articles: '' @ str_exn e)), w)
      | Inr from_param' \<Rightarrow>
     (case date_to_string lib to of
        Inl e \<Rightarrow> (Inl (Exn Exception (''Error fetching articles: '' @ str_exn e)), w)
      | Inr to' \<Rightarrow>
     (let (r, w') = client_get_everything lib w (client_api_key self)
                      [(''q'', q), (''sources'', sources), (''domains'', domains),
                       (''from_param'', from_param'), (''to'', to'), (''language'', language),
                       (''sort_by'', sort_by), (''page_size'', page_size), (''page'', page)]
      in case r of
           Inl e \<Rightarrow> (Inl (Exn Exception (''Error fetching articles: '' @ str_exn e)), w')
         | Inr resp \<Rightarrow>
             (case parse_response resp of
                Inl e \<Rightarrow> (Inl (Exn Exception (''Error fetching articles: '' @ str_exn e)), w')
              | Inr parsed \<Rightarrow> (Inr parsed, w')))))"

text \<open>\<open>get_sources\<close> returns the dictionary of the library as it is.\<close>

definition get_sources ::
  "'w newsapi \<Rightarrow> NewsAPIClient \<Rightarrow> pyval \<Rightarrow> pyval \<Rightarrow> pyval \<Rightarrow> 'w \<Rightarrow> (exn + pyval) \<times> 'w" where
  "get_sources lib self category language country w =
     (let (r, w') = client_get_sources lib w (client_api_key self)
                      [(''category'', category), (''language'', language), (''country'', country)]
      in case r of
           Inl e \<Rightarrow> (Inl (Exn Exception (''Error fetching sources: '' @ str_exn e)), w')
         | Inr sources \<Rightarrow> (Inr sources, w'))"

text \<open>
  A call \<open>method(**kwargs)\<close>: the first keyword that is no parameter of the method raises
  \<open>TypeError\<close> (the keyword \<open>self\<close> clashes with the receiver); a parameter without
  keyword takes its default.
\<close>

definition keyword_error :: "string \<Rightarrow> string list \<Rightarrow> (string \<times> pyval) list \<Rightarrow> exn option" where
  "keyword_error method params kwargs =
     (case filter (\<lambda>k. k \<notin> set params) (map fst kwargs) of
        [] \<Rightarrow> None
      | k # ks \<Rightarrow>
          if k = ''self'' then
            Some (Exn TypeError
              (''NewsAPIClient.'' @ method @ ''() got multiple values for argument 'self'' @ apostrophe))
          else
            Some (Exn TypeError
              (''NewsAPIClient.'' @ method @ ''() got an unexpected keyword argument '' @
               apostrophe @ k @ apostrophe)))"

definition keyword :: "(string \<times> pyval) list \<Rightarrow> string \<Rightarrow> pyval \<Rightarrow> pyval" where
  "keyword kwargs name default' = (case map_of kwargs name of Some v \<Rightarrow> v | None \<Rightarrow> default')"

definition call_get_top_headlines ::
  "'w newsapi \<Rightarrow> NewsAPIClient \<Rightarrow> (string \<times> pyval) list \<Rightarrow> 'w \<Rightarrow> (exn + NewsResponse) \<times> 'w" where
  "call_get_top_headlines lib self kwargs w =
     (case keyword_error ''get_top_headlines''
             [''q'', ''sources'', ''category'', ''language'', ''country'', ''page_size'', ''page'']
             kwargs of
        Some e \<Rightarrow> (Inl e, w)
      | None \<Rightarrow>
          get_top_headlines lib self
            (keyword kwargs ''q'' PyNone) (keyword kwargs ''sources'' PyNone)
            (keyword kwargs ''category'' PyNone) (keyword kwargs ''language'' (PyStr ''en''))
            (keyword kwargs ''country'' PyNone) (keyword kwargs ''page_size'' (PyInt 20))
            (keyword kwargs ''page'' (PyInt 1)) w)"

definition call_get_everything ::
  "'w newsapi \<Rightarrow> NewsAPIClient \<Rightarrow> (string \<times> pyval) list \<Rightarrow> 'w \<Rightarrow> (exn + NewsResponse) \<times> 'w" where
  "call_get_everything lib self kwargs w =
     (case keyword_error ''get_everything''
             [''q'', ''sources'', ''domains'', ''from_param'', ''to'', ''language'', ''sort_by'',
              ''page_size'', ''page'']
             kwargs of
        Some e \<Rightarrow> (Inl e, w)
      | None \<Rightarrow>
          get_everything lib self
            (keyword kwargs ''q'' PyNone) (keyword kwargs ''sources'' PyNone)
            (keyword kwargs ''domains'' PyNone) (keyword kwargs ''from_param'' PyNone)
            (keyword kwargs ''to'' PyNone) (keyword kwargs ''language'' (PyStr ''en''))
            (keyword kwargs ''sort_by'' (PyStr ''relevancy'')) (keyword kwargs ''page_size'' (PyInt 20))
            (keyword kwargs ''page'' (PyInt 1)) w)"

text \<open>The convenience function \<open>get_news(endpoint, **kwargs)\<close>.\<close>

definition get_news ::
  "(string \<rightharpoonup> string) \<Rightarrow> 'w newsapi \<Rightarrow> string \<Rightarrow> (string \<times> pyval) list \<Rightarrow> 'w \<Rightarrow>
   (exn + NewsResponse) \<times> 'w" where
  "get_news environ lib endpoint kwargs w =
     (case NewsAPIClient_init environ None of
        Inl e \<Rightarrow> (Inl e, w)
      | Inr client \<Rightarrow>
          if endpoint = ''top_headlines'' then call_get_top_headlines lib client kwargs w
          else if endpoint = ''everything'' then call_get_everything lib client kwargs w
          else
            (Inl (Exn ValueError
                    (''endpoint must be either 'top_headlines' or 'everything'' @ apostrophe)), w))"

section \<open>sandboxes/news/google\_news\_deprecated.py: saving\<close>

text \<open>
  The clock and the file system: \<open>now_stamp\<close> is
  \<open>datetime.now().strftime("%Y%m%d_%H%M%S")\<close>, and \<open>write_json w filename data\<close> opens
  the file for writing and dumps the data into it, with \<open>Some e\<close> when one of the two
  raises \<open>e\<close>. The function has no \<open>return\<close>: it returns \<open>None\<close>.
\<close>

record 'w files =
  now_stamp :: "'w \<Rightarrow> string"
  write_json :: "'w \<Rightarrow> string \<Rightarrow> pyval \<Rightarrow> exn option \<times> 'w"

definition save_news_data ::
  "'w files \<Rightarrow> 's GoogleNewsSandbox \<Rightarrow> pyval \<Rightarrow> string option \<Rightarrow> 'w io \<Rightarrow> pyval \<times> 'w io" where
  "save_news_data fs self news filename io =
     (let filename' = (case filename of
                         None \<Rightarrow> ''news_data_'' @ now_stamp fs (world io) @ ''.json''
                       | Some f \<Rightarrow> f);
          (r, w') = write_json fs (world io) filename' news
      in case r of
           None \<Rightarrow> (PyNone, \<lparr>world = w', stdout = stdout io @ [Saved_news_data filename']\<rparr>)
         | Some e \<Rightarrow> (PyNone, \<lparr>world = w', stdout = stdout io @ [Error_saving_data e]\<rparr>))"

section \<open>sandboxes/yfinance/yfinance\_sandbox.py\<close>

text \<open>
  The \<open>yfinance\<close>, \<open>pandas\<close> and \<open>numpy\<close> libraries. A data frame is a value of a
  type \<open>'df\<close> and a floating point number a value of a type \<open>'f\<close>, both left open.
  \<^item> \<open>ticker_info w symbol\<close> is \<open>yf.Ticker(symbol).info\<close> and
    \<open>ticker_history w symbol period\<close> is \<open>yf.Ticker(symbol).history(period=period)\<close>:
    the two requests, which read and change the world and may raise;
  \<^item> \<open>frame_empty\<close> is \<open>.empty\<close>, \<open>new_frame\<close> is \<open>pd.DataFrame()\<close>, \<open>frame_len\<close>
    is \<open>len\<close>;
  \<^item> \<open>add_return_columns\<close> is lines 65 to 72 of \<open>get_historical_data\<close>: the index
    without time zone and the three columns computed from \<open>Close\<close>;
  \<^item> \<open>price_metrics\<close> is lines 96 to 115 of \<open>calculate_metrics\<close>: the current price,
    the total return, the volatility, the Sharpe ratio and the maximum drawdown;
  \<^item> \<open>common_dates\<close> is lines 121 to 126 (the number of dates that the returns of the
    stock and of the market share), \<open>covariance\<close> lines 128 to 134 and
    \<open>market_variance\<close> line 135, each on the data of the stock and of the market;
  \<^item> \<open>float_is_zero\<close>, \<open>float_divide\<close> and \<open>round_float\<close> are the comparison with
    0, the division and \<open>round\<close> on floating point numbers.
\<close>

record ('w, 'df, 'f) yfinance =
  ticker_info :: "'w \<Rightarrow> string \<Rightarrow> (exn + pyval) \<times> 'w"
  ticker_history :: "'w \<Rightarrow> string \<Rightarrow> string \<Rightarrow> (exn + 'df) \<times> 'w"
  frame_empty :: "'df \<Rightarrow> bool"
  new_frame :: 'df
  frame_len :: "'df \<Rightarrow> nat"
  add_return_columns :: "'df \<Rightarrow> exn + 'df"
  price_metrics :: "'df \<Rightarrow> exn + ('f \<times> 'f \<times> 'f \<times> 'f \<times> 'f)"
  common_dates :: "'df \<Rightarrow> 'df \<Rightarrow> exn + nat"
  covariance :: "'df \<Rightarrow> 'df \<Rightarrow> exn + 'f"
  market_variance :: "'df \<Rightarrow> 'df \<Rightarrow> exn + 'f"
  float_is_zero :: "'f \<Rightarrow> bool"
  float_divide :: "'f \<Rightarrow> 'f \<Rightarrow> 'f"
  round_float :: "'f \<Rightarrow> nat \<Rightarrow> 'f"

text \<open>
  The object built by \<open>YahooFinanceSandbox.__init__\<close>; its attribute \<open>data\<close> is
  \<open>frames\<close> here.
\<close>

record 'df YahooFinanceSandbox =
  tickers :: "string list"
  frames :: "(string \<times> 'df) list"

definition YahooFinanceSandbox_init :: "'df YahooFinanceSandbox" where
  "YahooFinanceSandbox_init = \<lparr>tickers = [], frames = []\<rparr>"

definition get_stock_info ::
  "('w, 'df, 'f) yfinance \<Rightarrow> 'df YahooFinanceSandbox \<Rightarrow> string \<Rightarrow> 'w io \<Rightarrow> pyval \<times> 'w io" where
  "get_stock_info yf self symbol io =
     (let (r, w') = ticker_info yf (world io) symbol in
      case
        bind_exn r (\<lambda>info.
        bind_exn (py_get info ''longName'' (PyStr ''N/A'')) (\<lambda>v_name.
        bind_exn (py_get info ''sector'' (PyStr ''N/A'')) (\<lambda>v_sector.
        bind_exn (py_get info ''industry'' (PyStr ''N/A'')) (\<lambda>v_industry.
        bind_exn (py_get info ''marketCap'' (PyInt 0)) (\<lambda>v_cap.
        bind_exn (py_get info ''currentPrice'' (PyInt 0)) (\<lambda>v_price.
        bind_exn (py_get info ''fiftyTwoWeekHigh'' (PyInt 0)) (\<lambda>v_high.
        bind_exn (py_get info ''fiftyTwoWeekLow'' (PyInt 0)) (\<lambda>v_low.
        bind_exn (py_get info ''trailingPE'' (PyInt 0)) (\<lambda>v_pe.
        bind_exn (py_get info ''dividendYield'' (PyInt 0)) (\<lambda>v_yield.
        bind_exn (py_get info ''volume'' (PyInt 0)) (\<lambda>v_volume.
        bind_exn (py_get info ''beta'' (PyInt 0)) (\<lambda>v_beta.
          Inr (PyDict
            [(''Symbol'', PyStr symbol), (''Name'', v_name), (''Sector'', v_sector),
             (''Industry'', v_industry), (''Market Cap'', v_cap), (''Current Price'', v_price),
             (''52 Week High'', v_high), (''52 Week Low'', v_low), (''P/E Ratio'', v_pe),
             (''Dividend Yield'', v_yield), (''Volume'', v_volume), (''Beta'', v_beta)])))))))))))))
      of
        Inl e \<Rightarrow> (PyDict [], \<lparr>world = w', stdout = stdout io @ [Error_getting_info symbol e]\<rparr>)
      | Inr stock_info \<Rightarrow>
          (stock_info, \<lparr>world = w', stdout = stdout io @ [Retrieved_info symbol]\<rparr>))"

definition get_historical_data ::
  "('w, 'df, 'f) yfinance \<Rightarrow> 'df YahooFinanceSandbox \<Rightarrow> string \<Rightarrow> string \<Rightarrow> 'w io \<Rightarrow> 'df \<times> 'w io" where
  "get_historical_data yf self symbol period io =
     (let (r, w') = ticker_history yf (world io) symbol period in
      case r of
        Inl e \<Rightarrow>
          (new_frame yf,
           \<lparr>world = w', stdout = stdout io @ [Error_getting_historical_data symbol e]\<rparr>)
      | Inr hist \<Rightarrow>
          if frame_empty yf hist then
            (new_frame yf, \<lparr>world = w', stdout = stdout io @ [No_data_found symbol]\<rparr>)
          else
            (case add_return_columns yf hist of
               Inl e \<Rightarrow>
                 (new_frame yf,
                  \<lparr>world = w', stdout = stdout io @ [Error_getting_historical_data symbol e]\<rparr>)
             | Inr hist' \<Rightarrow>
                 (hist',
                  \<lparr>world = w', stdout = stdout io @ [Retrieved_days (frame_len yf hist') symbol]\<rparr>)))"

text \<open>
  \<open>calculate_metrics\<close>. The value of \<open>beta\<close> is the integer 0 or a floating point
  number; the other numbers of the dictionary are floating point numbers. The empty
  dictionary is \<open>None\<close>. What lines 96 to 115 raise is not caught; what the
  \<open>try\<close> block of lines 119 to 140 raises is caught by a bare \<open>except\<close> that sets
  \<open>beta\<close> to 0 and prints nothing.
\<close>

datatype 'f number = PInt int | PFloat 'f

fun round_number :: "('w, 'df, 'f) yfinance \<Rightarrow> 'f number \<Rightarrow> nat \<Rightarrow> 'f number" where
  "round_number yf (PInt i) ndigits = PInt i"
| "round_number yf (PFloat x) ndigits = PFloat (round_float yf x ndigits)"

record 'f metrics =
  metric_symbol :: string
  current_price :: 'f
  total_return_pct :: 'f
  volatility_pct :: 'f
  sharpe_ratio :: 'f
  max_drawdown_pct :: 'f
  beta :: "'f number"
  days_of_data :: nat

definition market_beta :: "('w, 'df, 'f) yfinance \<Rightarrow> 'df \<Rightarrow> exn + 'df \<Rightarrow> exn + 'f number" where
  "market_beta yf stock_data r =
     bind_exn r (\<lambda>market_data.
     bind_exn (common_dates yf stock_data market_data) (\<lambda>n.
       if n > 30 then
         bind_exn (covariance yf stock_data market_data) (\<lambda>cov.
         bind_exn (market_variance yf stock_data market_data) (\<lambda>var.
           Inr (if \<not> float_is_zero yf var then PFloat (float_divide yf cov var) else PInt 0)))
       else Inr (PInt 0)))"

definition calculate_metrics ::
  "('w, 'df, 'f) yfinance \<Rightarrow> 'df YahooFinanceSandbox \<Rightarrow> string \<Rightarrow> 'df \<Rightarrow> 'w io \<Rightarrow>
   (exn + 'f metrics option) \<times> 'w io" where
  "calculate_metrics yf self symbol stock_data io =
     (if frame_empty yf stock_data then (Inr None, io)
      else
        case price_metrics yf stock_data of
          Inl e \<Rightarrow> (Inl e, io)
        | Inr (price, total_return, volatility, sharpe, max_drawdown) \<Rightarrow>
            (let (r, w') = ticker_history yf (world io) ''^GSPC'' ''1y'';
                 beta0 = (case market_beta yf stock_data r of Inl e \<Rightarrow> PInt 0 | Inr b \<Rightarrow> b)
             in (Inr (Some
                   \<lparr>metric_symbol = symbol,
                    current_price = round_float yf price 2,
                    total_return_pct = round_float yf total_return 2,
                    volatility_pct = round_float yf volatility 2,
                    sharpe_ratio = round_float yf sharpe 3,
                    max_drawdown_pct = round_float yf max_drawdown 2,
                    beta = round_number yf beta0 3,
                    days_of_data = frame_len yf stock_data\<rparr>),
                 \<lparr>world = w', stdout = stdout io\<rparr>)))"

section \<open>sandboxes/llm\<close>

text \<open>
  The Hugging Face inference client. Each request takes the model and the token with
  which the client is built, reads and changes the world and may raise; \<open>'r\<close> is the type
  of what the endpoint answers. \<open>chat_completion\<close> takes the list of messages, each a
  role and a content, and returns the messages of \<open>completion.choices\<close>.
\<close>

record ('w, 'r) inference =
  summarization :: "'w \<Rightarrow> string \<Rightarrow> string \<Rightarrow> string \<Rightarrow> (exn + 'r) \<times> 'w"
  text_classification :: "'w \<Rightarrow> string \<Rightarrow> string \<Rightarrow> string \<Rightarrow> (exn + 'r) \<times> 'w"
  chat_completion :: "'w \<Rightarrow> string \<Rightarrow> string \<Rightarrow> (string \<times> string) list \<Rightarrow> (exn + 'r list) \<times> 'w"

text \<open>\<open>os.environ["HUGGINGFACE_TOKEN"]\<close> raises \<open>KeyError\<close> when the variable is not set.\<close>

definition environ_token :: "(string \<rightharpoonup> string) \<Rightarrow> exn + string" where
  "environ_token environ =
     (case environ ''HUGGINGFACE_TOKEN'' of
        None \<Rightarrow> Inl (Exn KeyError (apostrophe @ ''HUGGINGFACE_TOKEN'' @ apostrophe))
      | Some token \<Rightarrow> Inr token)"

text \<open>summarization.py\<close>

definition get_bart_summary ::
  "(string \<rightharpoonup> string) \<Rightarrow> ('w, 'r) inference \<Rightarrow> string \<Rightarrow> 'w io \<Rightarrow> 'r option \<times> 'w io" where
  "get_bart_summary environ hf text io =
     (case environ_token environ of
        Inl e \<Rightarrow> (None, \<lparr>world = world io, stdout = stdout io @ [Error_making_summarization_request e]\<rparr>)
      | Inr token \<Rightarrow>
          (let inputs = ''summarize: '' @ text;
               (r, w') = summarization hf (world io) ''facebook/bart-large-cnn'' token inputs
           in case r of
                Inl e \<Rightarrow>
                  (None, \<lparr>world = w', stdout = stdout io @ [Error_making_summarization_request e]\<rparr>)
              | Inr result \<Rightarrow> (Some result, \<lparr>world = w', stdout = stdout io\<rparr>)))"

text \<open>sentiment\_analysis.py\<close>

definition get_financial_sentiment ::
  "(string \<rightharpoonup> string) \<Rightarrow> ('w, 'r) inference \<Rightarrow> string \<Rightarrow> 'w io \<Rightarrow> 'r option \<times> 'w io" where
  "get_financial_sentiment environ hf text io =
     (case environ_token environ of
        Inl e \<Rightarrow> (None, \<lparr>world = world io, stdout = stdout io @ [Error_making_summarization_request e]\<rparr>)
      | Inr token \<Rightarrow>
          (let inputs = ''summarize: '' @ text;
               (r, w') = text_classification hf (world io)
                           ''mrm8488/distilroberta-finetuned-financial-news-sentiment-analysis''
                           token inputs
           in case r of
                Inl e \<Rightarrow>
                  (None, \<lparr>world = w', stdout = stdout io @ [Error_making_summarization_request e]\<rparr>)
              | Inr result \<Rightarrow> (Some result, \<lparr>world = w', stdout = stdout io\<rparr>)))"

text \<open>
  llama\_huggingface.py. The first handler catches \<open>KeyError\<close>, whatever raised it; the
  second one every other exception, the \<open>IndexError\<close> of \<open>choices[0]\<close> on an empty
  list included.
\<close>

definition first_choice :: "'r list \<Rightarrow> exn + 'r" where
  "first_choice choices =
     (case choices of
        [] \<Rightarrow> Inl (Exn IndexError ''list index out of range'')
      | m # ms \<Rightarrow> Inr m)"

definition llama_handler :: "exn \<Rightarrow> output_line" where
  "llama_handler e =
     (if class_exn e = KeyError then Error_token_not_found
      else Error_making_inference_request (str_exn e))"

definition get_llama_completion ::
  "(string \<rightharpoonup> string) \<Rightarrow> ('w, 'r) inference \<Rightarrow> string \<Rightarrow> string \<Rightarrow> 'w io \<Rightarrow> 'r option \<times> 'w io" where
  "get_llama_completion environ hf prompt system_message io =
     (case environ_token environ of
        Inl e \<Rightarrow> (None, \<lparr>world = world io, stdout = stdout io @ [llama_handler e]\<rparr>)
      | Inr api_key \<Rightarrow>
          (let (r, w') = chat_completion hf (world io) api_key ''meta-llama/Llama-3.3-70B-Instruct''
                           [(''system'', system_message), (''user'', prompt)]
           in case bind_exn r first_choice of
                Inl e \<Rightarrow> (None, \<lparr>world = w', stdout = stdout io @ [llama_handler e]\<rparr>)
              | Inr message \<Rightarrow> (Some message, \<lparr>world = w', stdout = stdout io\<rparr>)))"

section \<open>app/utils/helpers.py and app/core/portfolio.py\<close>

text \<open>
  The body of every function of these two modules is \<open>pass\<close>: the call returns
  \<open>None\<close> and changes nothing. \<open>Portfolio.__init__\<close> sets no attribute, so that the
  object is its empty attribute dictionary.
\<close>

definition safe_divide :: "rat \<Rightarrow> rat \<Rightarrow> rat \<Rightarrow> pyval" where
  "safe_divide numerator denominator default' = PyNone"

record Portfolio =
  attributes :: "(string \<times> pyval) list"

definition Portfolio_init :: "string \<Rightarrow> string \<Rightarrow> Portfolio" where
  "Portfolio_init name user_id = \<lparr>attributes = []\<rparr>"

definition add_position :: "Portfolio \<Rightarrow> string \<Rightarrow> rat \<Rightarrow> rat \<Rightarrow> pyval \<times> Portfolio" where
  "add_position self symbol shares price = (PyNone, self)"

definition remove_position :: "Portfolio \<Rightarrow> string \<Rightarrow> pyval \<times> Portfolio" where
  "remove_position self symbol = (PyNone, self)"

definition get_total_value :: "Portfolio \<Rightarrow> pyval \<times> Portfolio" where
  "get_total_value self = (PyNone, self)"

definition get_performance :: "Portfolio \<Rightarrow> string \<Rightarrow> pyval \<times> Portfolio" where
  "get_performance self period = (PyNone, self)"

section \<open>Concrete worlds for the examples\<close>

text \<open>
  The world is the number of requests sent so far, and a session is its headers. In \<open>unreachable_env\<close> and
  \<open>unreachable_newsapi\<close> every request raises; in \<open>forbidden_env\<close> every request
  is answered with an error status; in \<open>quiet_newsapi\<close> every request is answered
  with an empty result; in \<open>repeating_env\<close> every page holds the same three
  headlines, two of them equal. In \<open>unreachable_yfinance\<close> and
  \<open>unreachable_inference\<close> every request raises, a data frame is its list of closing
  prices and a floating point number is a rational; in \<open>readonly_files\<close> no file can be
  written.
\<close>

definition plain_sandbox :: "(string \<times> string) list GoogleNewsSandbox" where
  "plain_sandbox = GoogleNewsSandbox_init (\<lambda>hs. hs)"

definition unreachable_env :: "(nat, (string \<times> string) list) env" where
  "unreachable_env =
     \<lparr>quote_plus = (\<lambda>s. s),
      session_get = (\<lambda>w hdrs u. (Inl (Exn (LibraryError ''ConnectionError'') ''unreachable''), Suc w))\<rparr>"

definition forbidden_env :: "(nat, (string \<times> string) list) env" where
  "forbidden_env =
     \<lparr>quote_plus = (\<lambda>s. s),
      session_get = (\<lambda>w hdrs u.
        (Inr \<lparr>raise_for_status = Some (Exn (LibraryError ''HTTPError'') ''403 Client Error''),
              page_articles = []\<rparr>,
         Suc w))\<rparr>"

definition headline :: "string \<Rightarrow> exn + article_element" where
  "headline t = Inr \<lparr>h3 = Some t, h4 = None, a_href = None, time_tag = None, span = None\<rparr>"

definition repeating_env :: "(nat, (string \<times> string) list) env" where
  "repeating_env =
     \<lparr>quote_plus = (\<lambda>s. s),
      session_get = (\<lambda>w hdrs u.
        (Inr \<lparr>raise_for_status = None,
              page_articles = [headline ''Apple gains'', headline ''Apple gains'', headline ''Apple falls'']\<rparr>,
         Suc w))\<rparr>"

definition unreachable_newsapi :: "nat newsapi" where
  "unreachable_newsapi =
     \<lparr>client_get_top_headlines =
        (\<lambda>w k kwargs. (Inl (Exn (LibraryError ''NewsAPIException'') ''apiKeyInvalid''), Suc w)),
      client_get_everything =
        (\<lambda>w k kwargs. (Inl (Exn (LibraryError ''NewsAPIException'') ''apiKeyInvalid''), Suc w)),
      client_get_sources =
        (\<lambda>w k kwargs. (Inl (Exn (LibraryError ''NewsAPIException'') ''apiKeyInvalid''), Suc w)),
      strftime = (\<lambda>x fmt. Inr ''2024-01-01'')\<rparr>"

definition quiet_answer :: pyval where
  "quiet_answer =
     PyDict [(''status'', PyStr ''ok''), (''totalResults'', PyInt 0), (''articles'', PyList [])]"

definition quiet_newsapi :: "nat newsapi" where
  "quiet_newsapi =
     \<lparr>client_get_top_headlines = (\<lambda>w k kwargs. (Inr quiet_answer, Suc w)),
      client_get_everything = (\<lambda>w k kwargs. (Inr quiet_answer, Suc w)),
      client_get_sources = (\<lambda>w k kwargs. (Inr (PyDict [(''sources'', PyList [])]), Suc w)),
      strftime = (\<lambda>x fmt. Inr ''2024-01-01'')\<rparr>"

definition unreachable_yfinance :: "(nat, rat list, rat) yfinance" where
  "unreachable_yfinance =
     \<lparr>ticker_info =
        (\<lambda>w symbol. (Inl (Exn (LibraryError ''HTTPError'') ''429 Too Many Requests''), Suc w)),
      ticker_history =
        (\<lambda>w symbol period. (Inl (Exn (LibraryError ''HTTPError'') ''429 Too Many Requests''), Suc w)),
      frame_empty = (\<lambda>d. d = []),
      new_frame = [],
      frame_len = length,
      add_return_columns = Inr,
      price_metrics = (\<lambda>d. Inr (110, 10, 0, 0, 0)),
      common_dates = (\<lambda>a b. Inr 0),
      covariance = (\<lambda>a b. Inr 0),
      market_variance = (\<lambda>a b. Inr 0),
      float_is_zero = (\<lambda>x. x = 0),
      float_divide = (\<lambda>x y. x / y),
      round_float = (\<lambda>x ndigits. x)\<rparr>"

definition unreachable_inference :: "(nat, string) inference" where
  "unreachable_inference =
     \<lparr>summarization =
        (\<lambda>w model token inputs. (Inl (Exn (LibraryError ''HfHubHTTPError'') ''503 Service Unavailable''), Suc w)),
      text_classification =
        (\<lambda>w model token inputs. (Inl (Exn (LibraryError ''HfHubHTTPError'') ''503 Service Unavailable''), Suc w)),
      chat_completion =
        (\<lambda>w token model messages. (Inl (Exn (LibraryError ''HfHubHTTPError'') ''503 Service Unavailable''), Suc w))\<rparr>"

definition readonly_files :: "nat files" where
  "readonly_files =
     \<lparr>now_stamp = (\<lambda>w. ''20240101_000000''),
      write_json = (\<lambda>w filename news. (Some (Exn (LibraryError ''PermissionError'') ''Permission denied''), Suc w))\<rparr>"

section \<open>The sentiment scorer\<close>

subsection \<open>Containment is the substring relation\<close>

lemma startswith_iff: "startswith t w \<longleftrightarrow> (\<exists>post. t = w @ post)"
  by (induction t w rule: startswith.induct) auto

lemma contains_iff: "contains w t \<longleftrightarrow> (\<exists>pre post. t = pre @ w @ post)"
proof (induction t)
  case Nil
  then show ?case by auto
next
  case (Cons c t)
  show ?case
  proof
    assume "contains w (c # t)"
    then consider "startswith (c # t) w" | "contains w t" by auto
    then show "\<exists>pre post. c # t = pre @ w @ post"
    proof cases
      case 1
      then obtain post where "c # t = w @ post" by (auto simp: startswith_iff)
      then have "c # t = [] @ w @ post" by simp
      then show ?thesis by blast
    next
      case 2
      then obtain pre post where "t = pre @ w @ post" using Cons.IH by blast
      then have "c # t = (c # pre) @ w @ post" by simp
      then show ?thesis by blast
    qed
  next
    assume "\<exists>pre post. c # t = pre @ w @ post"
    then obtain pre post where e: "c # t = pre @ w @ post" by blast
    show "contains w (c # t)"
    proof (cases pre)
      case Nil
      with e have "startswith (c # t) w" by (auto simp: startswith_iff)
      then show ?thesis by simp
    next
      case (Cons d pre')
      with e have "t = pre' @ w @ post" by simp
      then have "contains w t" using Cons.IH by blast
      then show ?thesis by simp
    qed
  qed
qed

subsection \<open>The counts\<close>

lemma count_hits_filter: "count_hits ws t = length (filter (\<lambda>w. contains w t) ws)"
  unfolding count_hits_def by (induction ws) auto

lemma count_hits_card:
  assumes "distinct ws"
  shows "count_hits ws t = card {w \<in> set ws. \<exists>pre post. t = pre @ w @ post}"
proof -
  have "distinct (filter (\<lambda>w. contains w t) ws)"
    using assms by simp
  then have "card (set (filter (\<lambda>w. contains w t) ws)) = length (filter (\<lambda>w. contains w t) ws)"
    by (rule distinct_card)
  then have "count_hits ws t = card (set (filter (\<lambda>w. contains w t) ws))"
    by (simp only: count_hits_filter)
  also have "set (filter (\<lambda>w. contains w t) ws) = {w \<in> set ws. \<exists>pre post. t = pre @ w @ post}"
    by (auto simp: contains_iff)
  finally show ?thesis .
qed

lemma distinct_positive_words_list: "distinct positive_words_list"
  by code_simp

lemma distinct_negative_words_list: "distinct negative_words_list"
  by code_simp

lemma positive_words_analyze_sentiment:
  "positive_words (analyze_sentiment self text) = count_hits positive_words_list (lower text)"
  by (simp add: analyze_sentiment_def Let_def split: prod.splits)

lemma negative_words_analyze_sentiment:
  "negative_words (analyze_sentiment self text) = count_hits negative_words_list (lower text)"
  by (simp add: analyze_sentiment_def Let_def split: prod.splits)

lemma py_round_half: "py_round (1 / 2) 3 = 1 / 2"
  by code_simp

subsection \<open>Label and score\<close>

text \<open>
  Claim C1, as the code has it. For every text the label is \<open>positive\<close> when the
  positive count is the larger one, \<open>negative\<close> when the negative count is, and
  \<open>neutral\<close> when the two are equal. The score is the winning count divided by
  \<open>positive_count + negative_count + 1\<close> and then rounded to three decimals, and it is
  \<open>0.5\<close> for a neutral text.
\<close>

theorem analyze_sentiment_label_and_rounded_score:
  "let r = analyze_sentiment self text; p = positive_words r; n = negative_words r in
     (if p > n then
        sentiment r = ''positive'' \<and> score r = py_round (of_nat p / of_nat (p + n + 1)) 3
      else if n > p then
        sentiment r = ''negative'' \<and> score r = py_round (of_nat n / of_nat (p + n + 1)) 3
      else sentiment r = ''neutral'' \<and> score r = 1 / 2)"
  by (simp add: analyze_sentiment_def Let_def py_round_half)

text \<open>
  Claim C1 without the rounding fails: the text \<open>up rise\<close> has two positive words and no
  negative one, its score is \<open>0.667\<close>, and the quotient is \<open>2 / 3\<close>.
\<close>

theorem analyze_sentiment_score_not_exact_quotient:
  "score (analyze_sentiment plain_sandbox ''up rise'') = 667 / 1000 \<and>
   score (analyze_sentiment plain_sandbox ''up rise'') \<noteq>
     of_nat (positive_words (analyze_sentiment plain_sandbox ''up rise'')) /
     of_nat (positive_words (analyze_sentiment plain_sandbox ''up rise'')
             + negative_words (analyze_sentiment plain_sandbox ''up rise'') + 1)"
  by code_simp

text \<open>
  Claim C2, as the code has it. For every text the positive count is the number of words
  of the positive list that are a substring of the lower-cased text, and the negative
  count is the number of words of the negative list that are: containment, with no word
  boundaries, and every listed word counted once however often it occurs.
\<close>

theorem analyze_sentiment_counts_listed_words_once:
  "positive_words (analyze_sentiment self text) =
     card {w \<in> set positive_words_list. \<exists>pre post. lower text = pre @ w @ post} \<and>
   negative_words (analyze_sentiment self text) =
     card {w \<in> set negative_words_list. \<exists>pre post. lower text = pre @ w @ post}"
  by (simp only: positive_words_analyze_sentiment negative_words_analyze_sentiment
      count_hits_card [OF distinct_positive_words_list]
      count_hits_card [OF distinct_negative_words_list])

text \<open>
  Claim C2 with occurrences counted fails: in the text \<open>up up\<close> the word \<open>up\<close> occurs
  twice, and the positive count is one.
\<close>

theorem analyze_sentiment_repeated_word_counts_once:
  "spec_occurrences ''up'' (lower ''up up'') = 2 \<and>
   positive_words (analyze_sentiment plain_sandbox ''up up'') = 1"
  by code_simp

text \<open>
  Claim C8. The scorer is deterministic: it reads nothing but its text (no attribute of
  the sandbox object, no world), so that two calls on the same text, on whatever objects,
  give the same dictionary, label and score included.
\<close>

theorem analyze_sentiment_deterministic:
  "analyze_sentiment self1 text = analyze_sentiment self2 text"
  by (simp add: analyze_sentiment_def)

section \<open>News aggregation\<close>







lemma get_stock_news_example:
  "fst (get_stock_news repeating_env plain_sandbox ''AAPL'' ''Apple'' 7
          \<lparr>world = 0, stdout = []\<rparr>) =
   [\<lparr>title = ''Apple gains'', link = Some [], source = ''Unknown source'', time = Some [],
      query = ''AAPL''\<rparr>,
    \<lparr>title = ''Apple falls'', link = Some [], source = ''Unknown source'', time = Some [],
      query = ''AAPL''\<rparr>]"
  by code_simp


lemma parse_articles_length:
  "length (fst (parse_articles self q els arts out)) \<le> length arts + length els"
  by (induction self q els arts out rule: parse_articles.induct) simp_all

lemma search_news_length: "length (fst (search_news env self q days io)) \<le> 10"
proof -
  have "length (fst (parse_articles self q (take 10 els) [] out)) \<le> 10" for els out
    using parse_articles_length [of self q "take 10 els" "[]" out] by simp
  then have "parse_articles self q (take 10 els) [] out = (x1, x2) \<Longrightarrow> length x1 \<le> 10"
    for els out x1 x2
    by (metis fst_conv)
  then show ?thesis
    by (auto simp: search_news_def Let_def split: prod.splits sum.splits option.splits)
qed

text \<open>
  Claim C9. Whatever the pages hold, \<open>search_news\<close> returns at most 10 articles and
  \<open>get_stock_news\<close> at most 15.
\<close>

theorem search_news_and_get_stock_news_caps:
  "length (fst (search_news env self q days io)) \<le> 10 \<and>
   length (fst (get_stock_news env self symbol company_name days io)) \<le> 15"
  by (simp add: search_news_length get_stock_news_def Let_def split: prod.splits)

section \<open>Exception handlers\<close>

text \<open>
  Claim C7, as the code has it. In the sandboxes every call to an outside service (Google
  News, Yahoo Finance, the Hugging Face inference endpoint, NewsAPI) and the file write of
  \<open>save_news_data\<close> stand in a broad exception handler. When the call raises:
  \<^item> \<open>search_news\<close> (for the request and for \<open>raise_for_status\<close>),
    \<open>save_news_data\<close>, \<open>get_stock_info\<close>, \<open>get_historical_data\<close>,
    \<open>get_bart_summary\<close>, \<open>get_financial_sentiment\<close> and \<open>get_llama_completion\<close>
    print one line and return an empty result (the empty list, the empty dictionary, the
    empty data frame) or \<open>None\<close>;
  \<^item> \<open>get_top_headlines\<close>, \<open>get_everything\<close> and \<open>get_sources\<close> of
    \<open>NewsAPIClient\<close> print nothing and raise a plain \<open>Exception\<close> in its place, whose
    message is a prefix followed by the message caught;
  \<^item> \<open>calculate_metrics\<close> prints nothing, takes 0 for \<open>beta\<close> and returns the
    dictionary of metrics.
\<close>

theorem broad_handlers_return_empty_or_reraise:
  "(session_get env (world io) (session self)
       (base_url self @ ''/search?q='' @ quote_plus env q @ ''&hl=en-US&gl=US&ceid=US:en'') =
       (Inl e1, w1)
     \<longrightarrow> search_news env self q days io =
          ([], \<lparr>world = w1, stdout = stdout io @ [Searching_for q, Error_searching_news q e1]\<rparr>))
   \<and> (session_get env2 (world io) (session self)
       (base_url self @ ''/search?q='' @ quote_plus env2 q @ ''&hl=en-US&gl=US&ceid=US:en'') =
       (Inr resp, w2)
      \<and> raise_for_status resp = Some e2
     \<longrightarrow> search_news env2 self q days io =
          ([], \<lparr>world = w2, stdout = stdout io @ [Searching_for q, Error_searching_news q e2]\<rparr>))
   \<and> (client_get_top_headlines lib w (client_api_key client)
         [(''q'', kq), (''sources'', sources), (''category'', category), (''language'', language),
          (''country'', country), (''page_size'', page_size), (''page'', page)] = (Inl e3, w3)
     \<longrightarrow> get_top_headlines lib client kq sources category language country page_size page w =
          (Inl (Exn Exception (''Error fetching top headlines: '' @ str_exn e3)), w3))
   \<and> (date_to_string lib from_param = Inr from_string \<and> date_to_string lib to = Inr to_string
      \<and> client_get_everything lib w (client_api_key client)
         [(''q'', kq), (''sources'', sources), (''domains'', domains), (''from_param'', from_string),
          (''to'', to_string), (''language'', language), (''sort_by'', sort_by),
          (''page_size'', page_size), (''page'', page)] = (Inl e4, w4)
     \<longrightarrow> get_everything lib client kq sources domains from_param to language sort_by page_size page w =
          (Inl (Exn Exception (''Error fetching articles: '' @ str_exn e4)), w4))
   \<and> (client_get_sources lib w (client_api_key client)
         [(''category'', category), (''language'', language), (''country'', country)] = (Inl e5, w5)
     \<longrightarrow> get_sources lib client category language country w =
          (Inl (Exn Exception (''Error fetching sources: '' @ str_exn e5)), w5))
   \<and> (write_json fs (world io) filename news = (Some e6, w6)
     \<longrightarrow> save_news_data fs self news (Some filename) io =
          (PyNone, \<lparr>world = w6, stdout = stdout io @ [Error_saving_data e6]\<rparr>))
   \<and> (ticker_info yf (world io) symbol = (Inl e7, w7)
     \<longrightarrow> get_stock_info yf ys symbol io =
          (PyDict [], \<lparr>world = w7, stdout = stdout io @ [Error_getting_info symbol e7]\<rparr>))
   \<and> (ticker_history yf (world io) symbol period = (Inl e8, w8)
     \<longrightarrow> get_historical_data yf ys symbol period io =
          (new_frame yf,
           \<lparr>world = w8, stdout = stdout io @ [Error_getting_historical_data symbol e8]\<rparr>))
   \<and> (\<not> frame_empty yf stock_data
      \<and> price_metrics yf stock_data = Inr (price, total_return, volatility, sharpe, max_drawdown)
      \<and> ticker_history yf (world io) ''^GSPC'' ''1y'' = (Inl e9, w9)
     \<longrightarrow> calculate_metrics yf ys symbol stock_data io =
          (Inr (Some
             \<lparr>metric_symbol = symbol,
              current_price = round_float yf price 2,
              total_return_pct = round_float yf total_return 2,
              volatility_pct = round_float yf volatility 2,
              sharpe_ratio = round_float yf sharpe 3,
              max_drawdown_pct = round_float yf max_drawdown 2,
              beta = PInt 0,
              days_of_data = frame_len yf stock_data\<rparr>),
           \<lparr>world = w9, stdout = stdout io\<rparr>))
   \<and> (environ ''HUGGINGFACE_TOKEN'' = Some token
      \<and> summarization hf (world io) ''facebook/bart-large-cnn'' token (''summarize: '' @ input_text) =
         (Inl e10, w10)
     \<longrightarrow> get_bart_summary environ hf input_text io =
          (None, \<lparr>world = w10, stdout = stdout io @ [Error_making_summarization_request e10]\<rparr>))
   \<and> (environ ''HUGGINGFACE_TOKEN'' = Some token
      \<and> text_classification hf (world io)
           ''mrm8488/distilroberta-finetuned-financial-news-sentiment-analysis'' token
           (''summarize: '' @ input_text) = (Inl e11, w11)
     \<longrightarrow> get_financial_sentiment environ hf input_text io =
          (None, \<lparr>world = w11, stdout = stdout io @ [Error_making_summarization_request e11]\<rparr>))
   \<and> (environ ''HUGGINGFACE_TOKEN'' = Some token
      \<and> chat_completion hf (world io) token ''meta-llama/Llama-3.3-70B-Instruct''
           [(''system'', system_message), (''user'', prompt)] = (Inl e12, w12)
     \<longrightarrow> get_llama_completion environ hf prompt system_message io =
          (None,
           \<lparr>world = w12,
            stdout = stdout io @
              [if class_exn e12 = KeyError then Error_token_not_found
               else Error_making_inference_request (str_exn e12)]\<rparr>))"
  by (simp add: search_news_def get_top_headlines_def get_everything_def get_sources_def
      save_news_data_def get_stock_info_def get_historical_data_def calculate_metrics_def
      market_beta_def get_bart_summary_def get_financial_sentiment_def get_llama_completion_def
      environ_token_def llama_handler_def)

text \<open>
  The cases of claim C7 on concrete worlds in which every request raises, a response
  has an error status and no file can be written.
\<close>

theorem broad_handlers_examples:
  "search_news unreachable_env plain_sandbox ''AAPL'' 7 \<lparr>world = 0, stdout = []\<rparr> =
     ([], \<lparr>world = 1, stdout = [Searching_for ''AAPL'',
            Error_searching_news ''AAPL'' (Exn (LibraryError ''ConnectionError'') ''unreachable'')]\<rparr>)
   \<and> search_news forbidden_env plain_sandbox ''AAPL'' 7 \<lparr>world = 0, stdout = []\<rparr> =
     ([], \<lparr>world = 1, stdout = [Searching_for ''AAPL'',
            Error_searching_news ''AAPL'' (Exn (LibraryError ''HTTPError'') ''403 Client Error'')]\<rparr>)
   \<and> get_top_headlines unreachable_newsapi \<lparr>client_api_key = ''secret''\<rparr>
        PyNone PyNone PyNone (PyStr ''en'') PyNone (PyInt 20) (PyInt 1) 0 =
     (Inl (Exn Exception ''Error fetching top headlines: apiKeyInvalid''), 1)
   \<and> get_everything unreachable_newsapi \<lparr>client_api_key = ''secret''\<rparr>
        PyNone PyNone PyNone PyNone PyNone (PyStr ''en'') (PyStr ''relevancy'') (PyInt 20) (PyInt 1) 0 =
     (Inl (Exn Exception ''Error fetching articles: apiKeyInvalid''), 1)
   \<and> get_sources unreachable_newsapi \<lparr>client_api_key = ''secret''\<rparr> PyNone (PyStr ''en'') PyNone 0 =
     (Inl (Exn Exception ''Error fetching sources: apiKeyInvalid''), 1)
   \<and> save_news_data readonly_files plain_sandbox (PyDict []) (Some ''sample_news_data.json'')
        \<lparr>world = 0, stdout = []\<rparr> =
     (PyNone, \<lparr>world = 1, stdout =
        [Error_saving_data (Exn (LibraryError ''PermissionError'') ''Permission denied'')]\<rparr>)
   \<and> get_stock_info unreachable_yfinance YahooFinanceSandbox_init ''AAPL'' \<lparr>world = 0, stdout = []\<rparr> =
     (PyDict [], \<lparr>world = 1, stdout =
        [Error_getting_info ''AAPL'' (Exn (LibraryError ''HTTPError'') ''429 Too Many Requests'')]\<rparr>)
   \<and> get_historical_data unreachable_yfinance YahooFinanceSandbox_init ''AAPL'' ''1y''
        \<lparr>world = 0, stdout = []\<rparr> =
     ([], \<lparr>world = 1, stdout =
        [Error_getting_historical_data ''AAPL''
           (Exn (LibraryError ''HTTPError'') ''429 Too Many Requests'')]\<rparr>)
   \<and> calculate_metrics unreachable_yfinance YahooFinanceSandbox_init ''AAPL'' [100, 110]
        \<lparr>world = 0, stdout = []\<rparr> =
     (Inr (Some \<lparr>metric_symbol = ''AAPL'', current_price = 110, total_return_pct = 10,
                 volatility_pct = 0, sharpe_ratio = 0, max_drawdown_pct = 0, beta = PInt 0,
                 days_of_data = 2\<rparr>),
      \<lparr>world = 1, stdout = []\<rparr>)
   \<and> get_bart_summary (Map.empty(''HUGGINGFACE_TOKEN'' \<mapsto> ''hf'')) unreachable_inference ''Apple''
        \<lparr>world = 0, stdout = []\<rparr> =
     (None, \<lparr>world = 1, stdout =
        [Error_making_summarization_request
           (Exn (LibraryError ''HfHubHTTPError'') ''503 Service Unavailable'')]\<rparr>)
   \<and> get_financial_sentiment (Map.empty(''HUGGINGFACE_TOKEN'' \<mapsto> ''hf'')) unreachable_inference
        ''Apple'' \<lparr>world = 0, stdout = []\<rparr> =
     (None, \<lparr>world = 1, stdout =
        [Error_making_summarization_request
           (Exn (LibraryError ''HfHubHTTPError'') ''503 Service Unavailable'')]\<rparr>)
   \<and> get_llama_completion (Map.empty(''HUGGINGFACE_TOKEN'' \<mapsto> ''hf'')) unreachable_inference
        ''Hello'' ''Be brief'' \<lparr>world = 0, stdout = []\<rparr> =
     (None, \<lparr>world = 1, stdout = [Error_making_inference_request ''503 Service Unavailable'']\<rparr>)"
  using broad_handlers_return_empty_or_reraise
    [where env = unreachable_env and io = "\<lparr>world = 0, stdout = []\<rparr>" and self = plain_sandbox
       and q = "''AAPL''" and days = 7
       and ?e1.0 = "Exn (LibraryError ''ConnectionError'') ''unreachable''" and ?w1.0 = 1
       and ?env2.0 = forbidden_env
       and resp = "\<lparr>raise_for_status = Some (Exn (LibraryError ''HTTPError'') ''403 Client Error''),
                    page_articles = []\<rparr>"
       and ?e2.0 = "Exn (LibraryError ''HTTPError'') ''403 Client Error''" and ?w2.0 = 1
       and lib = unreachable_newsapi and w = 0 and client = "\<lparr>client_api_key = ''secret''\<rparr>"
       and kq = PyNone and sources = PyNone and category = PyNone and language = "PyStr ''en''"
       and country = PyNone and page_size = "PyInt 20" and page = "PyInt 1"
       and ?e3.0 = "Exn (LibraryError ''NewsAPIException'') ''apiKeyInvalid''" and ?w3.0 = 1
       and domains = PyNone and from_param = PyNone and from_string = PyNone
       and to = PyNone and to_string = PyNone and sort_by = "PyStr ''relevancy''"
       and ?e4.0 = "Exn (LibraryError ''NewsAPIException'') ''apiKeyInvalid''" and ?w4.0 = 1
       and ?e5.0 = "Exn (LibraryError ''NewsAPIException'') ''apiKeyInvalid''" and ?w5.0 = 1
       and fs = readonly_files and filename = "''sample_news_data.json''" and news = "PyDict []"
       and ?e6.0 = "Exn (LibraryError ''PermissionError'') ''Permission denied''" and ?w6.0 = 1
       and yf = unreachable_yfinance and ys = YahooFinanceSandbox_init and symbol = "''AAPL''"
       and period = "''1y''"
       and ?e7.0 = "Exn (LibraryError ''HTTPError'') ''429 Too Many Requests''" and ?w7.0 = 1
       and ?e8.0 = "Exn (LibraryError ''HTTPError'') ''429 Too Many Requests''" and ?w8.0 = 1
       and stock_data = "[100, 110]" and price = 110 and total_return = 10 and volatility = 0
       and sharpe = 0 and max_drawdown = 0
       and ?e9.0 = "Exn (LibraryError ''HTTPError'') ''429 Too Many Requests''" and ?w9.0 = 1
       and environ = "Map.empty(''HUGGINGFACE_TOKEN'' \<mapsto> ''hf'')" and token = "''hf''"
       and hf = unreachable_inference and input_text = "''Apple''"
       and ?e10.0 = "Exn (LibraryError ''HfHubHTTPError'') ''503 Service Unavailable''" and ?w10.0 = 1
       and ?e11.0 = "Exn (LibraryError ''HfHubHTTPError'') ''503 Service Unavailable''" and ?w11.0 = 1
       and system_message = "''Be brief''" and prompt = "''Hello''"
       and ?e12.0 = "Exn (LibraryError ''HfHubHTTPError'') ''503 Service Unavailable''" and ?w12.0 = 1]
  by (simp add: unreachable_env_def forbidden_env_def unreachable_newsapi_def readonly_files_def
      unreachable_yfinance_def unreachable_inference_def date_to_string_def)

text \<open>
  Claim C7 for every sandbox fails at the three methods of \<open>NewsAPIClient\<close> and at
  \<open>calculate_metrics\<close>: when their request raises, the methods end in an exception, not
  in an empty or \<open>None\<close> result, and \<open>calculate_metrics\<close> prints nothing and returns
  a dictionary that is not empty.
\<close>

theorem get_top_headlines_reraises:
  "fst (get_top_headlines unreachable_newsapi \<lparr>client_api_key = ''secret''\<rparr>
          PyNone PyNone PyNone (PyStr ''en'') PyNone (PyInt 20) (PyInt 1) 0) =
     Inl (Exn Exception ''Error fetching top headlines: apiKeyInvalid'')
   \<and> fst (get_everything unreachable_newsapi \<lparr>client_api_key = ''secret''\<rparr>
          PyNone PyNone PyNone PyNone PyNone (PyStr ''en'') (PyStr ''relevancy'') (PyInt 20) (PyInt 1) 0) =
     Inl (Exn Exception ''Error fetching articles: apiKeyInvalid'')
   \<and> fst (get_sources unreachable_newsapi \<lparr>client_api_key = ''secret''\<rparr> PyNone (PyStr ''en'') PyNone 0) =
     Inl (Exn Exception ''Error fetching sources: apiKeyInvalid'')
   \<and> calculate_metrics unreachable_yfinance YahooFinanceSandbox_init ''AAPL'' [100, 110]
        \<lparr>world = 0, stdout = []\<rparr> =
     (Inr (Some \<lparr>metric_symbol = ''AAPL'', current_price = 110, total_return_pct = 10,
                 volatility_pct = 0, sharpe_ratio = 0, max_drawdown_pct = 0, beta = PInt 0,
                 days_of_data = 2\<rparr>),
      \<lparr>world = 1, stdout = []\<rparr>)"
  by (simp add: get_top_headlines_def get_everything_def get_sources_def date_to_string_def
      calculate_metrics_def market_beta_def unreachable_newsapi_def unreachable_yfinance_def)

section \<open>The convenience function \<open>get_news\<close>\<close>

text \<open>
  Claim C10, as the code has it. For every endpoint other than \<open>top_headlines\<close> and
  \<open>everything\<close>, \<open>get_news\<close> raises \<open>ValueError\<close>. When the environment holds a
  non-empty \<open>API_NEWS_KEY\<close>, \<open>get_news\<close> with \<open>top_headlines\<close> is the call of
  \<open>get_top_headlines\<close>, and with \<open>everything\<close> the call of \<open>get_everything\<close>, on
  the client of that key with the same keyword arguments. When the key is missing or
  empty, \<open>get_news\<close> raises the \<open>ValueError\<close> of the constructor for every endpoint
  and sends no request.
\<close>

theorem get_news_dispatch:
  "(endpoint \<noteq> ''top_headlines'' \<and> endpoint \<noteq> ''everything'' \<longrightarrow>
      (\<exists>msg. get_news environ lib endpoint kwargs w = (Inl (Exn ValueError msg), w)))
   \<and> (environ ''API_NEWS_KEY'' = Some k \<and> k \<noteq> [] \<longrightarrow>
        get_news environ lib ''top_headlines'' kwargs w =
          call_get_top_headlines lib \<lparr>client_api_key = k\<rparr> kwargs w
      \<and> get_news environ lib ''everything'' kwargs w =
          call_get_everything lib \<lparr>client_api_key = k\<rparr> kwargs w)
   \<and> (environ ''API_NEWS_KEY'' = None \<or> environ ''API_NEWS_KEY'' = Some [] \<longrightarrow>
        get_news environ lib endpoint kwargs w =
          (Inl (Exn ValueError
             ''API key not found. Set API_NEWS_KEY environment variable or pass api_key parameter.''),
           w))"
  by (auto simp: get_news_def NewsAPIClient_init_def split: option.splits)

text \<open>
  Claim C10 on concrete inputs: an unknown endpoint, the two endpoints with a key, and an
  environment without key.
\<close>

theorem get_news_dispatch_examples:
  "(\<exists>msg. get_news (Map.empty(''API_NEWS_KEY'' \<mapsto> ''secret'')) quiet_newsapi ''sources'' [] 0 =
       (Inl (Exn ValueError msg), 0))
   \<and> get_news (Map.empty(''API_NEWS_KEY'' \<mapsto> ''secret'')) quiet_newsapi ''top_headlines'' [] 0 =
       call_get_top_headlines quiet_newsapi \<lparr>client_api_key = ''secret''\<rparr> [] 0
   \<and> get_news (Map.empty(''API_NEWS_KEY'' \<mapsto> ''secret'')) quiet_newsapi ''everything'' [] 0 =
       call_get_everything quiet_newsapi \<lparr>client_api_key = ''secret''\<rparr> [] 0
   \<and> get_news Map.empty quiet_newsapi ''everything'' [] 0 =
       (Inl (Exn ValueError
          ''API key not found. Set API_NEWS_KEY environment variable or pass api_key parameter.''),
        0)"
  using get_news_dispatch
          [of "''sources''" "Map.empty(''API_NEWS_KEY'' \<mapsto> ''secret'')" quiet_newsapi "[]" 0
              "''secret''"]
        get_news_dispatch [of "''everything''" Map.empty quiet_newsapi "[]" 0 "''secret''"]
  by simp

text \<open>
  Claim C10 without the condition on the key fails: with no \<open>API_NEWS_KEY\<close>,
  \<open>get_news\<close> with \<open>top_headlines\<close> raises \<open>ValueError\<close> and leaves the world as it
  was, where the call of \<open>get_top_headlines\<close> sends a request and returns a response.
\<close>

theorem get_news_without_key_raises:
  "get_news Map.empty quiet_newsapi ''top_headlines'' [] 0 =
     (Inl (Exn ValueError
        ''API key not found. Set API_NEWS_KEY environment variable or pass api_key parameter.''),
      0)
   \<and> call_get_top_headlines quiet_newsapi \<lparr>client_api_key = ''secret''\<rparr> [] 0 =
     (Inr \<lparr>status = PyStr ''ok'', total_results = PyInt 0, articles = []\<rparr>, 1)"
  by (simp add: get_news_def NewsAPIClient_init_def call_get_top_headlines_def keyword_error_def
      keyword_def get_top_headlines_def quiet_newsapi_def quiet_answer_def parse_response_def)

section \<open>The unimplemented helpers and portfolio\<close>

text \<open>
  Claim C4. The docstring of \<open>safe_divide\<close> promises the default on a division by zero;
  the body is \<open>pass\<close>, and \<open>safe_divide(5, 0, default=0.0)\<close> returns \<open>None\<close>, not
  \<open>0.0\<close>.
\<close>

theorem safe_divide_returns_None:
  "safe_divide 5 0 0 = PyNone \<and> safe_divide 5 0 0 \<noteq> PyFloat 0"
  by (simp add: safe_divide_def)

text \<open>
  Claim C5. The docstring of \<open>get_performance\<close> promises a dictionary of metrics; the
  body is \<open>pass\<close>, and on a new portfolio the call returns \<open>None\<close>, which has no
  \<open>total_return_pct\<close>.
\<close>

theorem get_performance_returns_None:
  "fst (get_performance (Portfolio_init ''main'' ''u1'') ''1y'') = PyNone"
  by (simp add: get_performance_def)

text \<open>
  Claim C6. The docstring of \<open>get_total_value\<close> promises the total value; the bodies of
  \<open>add_position\<close> and \<open>get_total_value\<close> are \<open>pass\<close>, and after adding 10 shares
  at 150 the total value returned is \<open>None\<close>, not 1500.
\<close>

theorem get_total_value_returns_None:
  "fst (get_total_value (snd (add_position (Portfolio_init ''main'' ''u1'') ''AAPL'' 10 150))) =
     PyNone
   \<and> fst (get_total_value (snd (add_position (Portfolio_init ''main'' ''u1'') ''AAPL'' 10 150)))
      \<noteq> PyFloat (10 * 150)"
  by (simp add: get_total_value_def)

end
